theory Spec2Isabelle
  imports Main "HOL-Library.Sublist"
begin

text \<open>
  A shallow embedding of the client utilities of the dtm transaction coordinator
  (package \<open>dtmimp\<close>: panic and error helpers, the status interpreter, \<open>DBExec\<close>,
  \<open>GetDsn\<close>) and of the Saga branch handler \<open>sagaGormBarrierTransOut\<close> of the examples,
  with the dialect adapter and the Barrier that they call, and the properties of the
  specification proved or refuted on them.
\<close>

section \<open>Errors and panics (dtmimp utilities)\<close>

text \<open>
  A Go \<open>error\<close> value is either one of the two sentinel errors of the status protocol
  or an error made by \<open>errors.New\<close> / \<open>fmt.Errorf\<close>, which carries only its message.
  The declarations of the sentinels \<open>ErrFailure\<close> and \<open>ErrOngoing\<close> are not in the
  sources; they are package-level values, so no call of \<open>errors.New\<close> ever returns one
  of them.
  A nil error is \<open>None\<close> of \<open>error option\<close>.
\<close>

datatype error = ErrFailure | ErrOngoing | ErrorString string

text \<open>
  The value handed to \<open>panic\<close>: an error, or some other value, kept as its \<open>%v\<close>
  rendering. The program never calls \<open>panic(nil)\<close>, so a panic value is never nil.
  A computation that may panic returns \<open>Inl\<close> of the panic value.
\<close>

datatype panic_value = PanicError error | PanicOther string

type_synonym 'a result = "panic_value + 'a"

definition then_do :: "'a result \<Rightarrow> ('a \<Rightarrow> 'b result) \<Rightarrow> 'b result" where
  "then_do m f = (case m of Inl p \<Rightarrow> Inl p | Inr x \<Rightarrow> f x)"

text \<open>\<open>AsError\<close>: an error is returned as it is, anything else through \<open>fmt.Errorf("%v", x)\<close>.\<close>

fun AsError :: "panic_value \<Rightarrow> error" where
  "AsError (PanicError e) = e"
| "AsError (PanicOther s) = ErrorString s"

text \<open>
  \<open>P2E\<close> runs deferred: it sees how the function body ended and the current value of
  \<open>*perr\<close>, and gives the new value of \<open>*perr\<close>.
\<close>

fun P2E :: "'a result \<Rightarrow> error option \<Rightarrow> error option" where
  "P2E (Inl x) perr = Some (AsError x)"
| "P2E (Inr v) perr = perr"

fun E2P :: "error option \<Rightarrow> unit result" where
  "E2P None = Inr ()"
| "E2P (Some err) = Inl (PanicError err)"

text \<open>
  \<open>CatchP\<close>: the named result \<open>rerr\<close> is nil when \<open>f\<close> panics, and \<open>return nil\<close>
  sets it to nil otherwise; the deferred \<open>P2E\<close> then has the last word.
\<close>

definition CatchP :: "(unit \<Rightarrow> unit result) \<Rightarrow> error option" where
  "CatchP f = P2E (f ()) None"

definition PanicIf :: "bool \<Rightarrow> error \<Rightarrow> unit result" where
  "PanicIf cond err = (if cond then Inl (PanicError err) else Inr ())"

text \<open>
  \<open>json.Marshal\<close> belongs to the standard library; it is a parameter \<open>marshal\<close> that
  gives the encoded text or an error.
\<close>

definition MustMarshal :: "('v \<Rightarrow> error + string) \<Rightarrow> 'v \<Rightarrow> string result" where
  "MustMarshal marshal v =
     (case marshal v of
        Inl err \<Rightarrow> then_do (E2P (Some err)) (\<lambda>_. Inr [])
      | Inr b \<Rightarrow> then_do (E2P None) (\<lambda>_. Inr b))"

definition MustMarshalString :: "('v \<Rightarrow> error + string) \<Rightarrow> 'v \<Rightarrow> string result" where
  "MustMarshalString marshal v = MustMarshal marshal v"

section \<open>Status protocol interpreter\<close>

text \<open>
  Modelled from the spec: the declaration of the marker constant \<open>ResultFailure\<close> is
  missing from the sources; the participant contract names the recognised markers
  FAILURE and ONGOING.
\<close>

definition ResultFailure :: string where
  "ResultFailure = ''FAILURE''"

text \<open>
  Modelled from the spec: the declaration of the marker constant \<open>ResultOngoing\<close> is
  missing from the sources; it is the ONGOING marker of the participant contract.
\<close>

definition ResultOngoing :: string where
  "ResultOngoing = ''ONGOING''"

text \<open>\<open>strings.Contains(s, substr)\<close>: \<open>substr\<close> occurs in \<open>s\<close> as a contiguous run.\<close>

definition Contains :: "string \<Rightarrow> string \<Rightarrow> bool" where
  "Contains s substr = sublist substr s"

text \<open>
  A resty response, as far as the interpreter reads it: the HTTP status code and the
  text that \<open>resp.String()\<close> gives. \<open>IsError\<close> is resty's: status code above 399.
\<close>

record Response =
  StatusCode :: int
  RespString :: string

definition IsError :: "Response \<Rightarrow> bool" where
  "IsError resp = (StatusCode resp > 399)"

definition CheckResponse :: "Response option \<Rightarrow> error option \<Rightarrow> error option" where
  "CheckResponse resp err =
     (case (err, resp) of
        (None, Some r) \<Rightarrow>
          if IsError r then Some (ErrorString (RespString r))
          else if Contains (RespString r) ResultFailure then Some ErrFailure
          else if Contains (RespString r) ResultOngoing then Some ErrOngoing
          else err
      | _ \<Rightarrow> err)"

text \<open>
  The \<open>interface{}\<close> argument of \<open>CheckResult\<close>: the nil interface, a
  \<open>*resty.Response\<close> (the pointer itself may be nil), or any other value.
\<close>

datatype 'v Res = ResNil | ResResponse "Response option" | ResValue 'v

definition CheckResult ::
  "('v \<Rightarrow> error + string) \<Rightarrow> 'v Res \<Rightarrow> error option \<Rightarrow> error option result" where
  "CheckResult marshal res err =
     (case err of
        Some e \<Rightarrow> Inr err
      | None \<Rightarrow>
          (case res of
             ResResponse resp \<Rightarrow> Inr (CheckResponse resp err)
           | ResValue v \<Rightarrow>
               then_do (MustMarshalString marshal v) (\<lambda>str.
                 if Contains str ResultFailure then Inr (Some ErrFailure)
                 else if Contains str ResultOngoing then Inr (Some ErrOngoing)
                 else Inr err)
           | ResNil \<Rightarrow> Inr err))"

section \<open>Dialect adapter\<close>

text \<open>
  Modelled from the spec: the dialect adapters, \<open>SetCurrentDBType\<close> and \<open>GetDBSpecial\<close>
  are missing from the sources; only their test \<open>TestDBSpecial\<close> is there. The dialect
  contract has \<open>PlaceholderSQL(sql)\<close> and \<open>InsertIgnoreSQL(tableAndValues,
  uniqueConstraintName)\<close> for at least two relational engines; the test fixes the texts:
  MySQL leaves \<open>? ?\<close> as it is and writes \<open>insert ignore into a(f) values(?)\<close>;
  Postgres writes \<open>$1 $2\<close> and
  \<open>insert into a(f) values(?) on conflict ON CONSTRAINT c do nothing\<close>.
  An unrecognised dialect aborts with a diagnostic (a panic that \<open>CatchP\<close> turns into
  an error, as the test asserts).
\<close>

datatype DBSpecial = Mysql | Postgres

text \<open>
  Modelled from the spec: the name of the first dialect, missing from the sources; the
  dialect names are the driver names that \<open>GetDsn\<close> knows.
\<close>

definition DBTypeMysql :: string where
  "DBTypeMysql = ''mysql''"

text \<open>Modelled from the spec: the name of the second dialect, missing from the sources.\<close>

definition DBTypePostgres :: string where
  "DBTypePostgres = ''postgres''"

text \<open>Modelled from the spec: the registry of the supported dialects, missing from the sources.\<close>

definition dbSpecials :: "string \<Rightarrow> DBSpecial option" where
  "dbSpecials = map_of [(DBTypeMysql, Mysql), (DBTypePostgres, Postgres)]"

text \<open>
  Modelled from the spec: \<open>SetCurrentDBType\<close> is missing from the sources. It
  takes the old value of the package variable \<open>currentDBType\<close> and gives the new one,
  or panics on a name that is not registered.
\<close>

definition SetCurrentDBType :: "string \<Rightarrow> string \<Rightarrow> string result" where
  "SetCurrentDBType dbType currentDBType =
     then_do (PanicIf (dbSpecials dbType = None) (ErrorString (''unknown db type '' @ dbType)))
       (\<lambda>_. Inr dbType)"

text \<open>
  Modelled from the spec: the decimal digit of a number below ten, part of the missing
  Postgres adapter (it is only used below ten).
\<close>

definition digit :: "nat \<Rightarrow> char" where
  "digit d = ''0123456789'' ! d"

text \<open>
  Modelled from the spec: the decimal text of a placeholder position (\<open>$1\<close>, \<open>$2\<close>, ...),
  part of the missing Postgres adapter.
\<close>

fun Itoa :: "nat \<Rightarrow> string" where
  "Itoa n =
     (if n < 10 then [digit n]
      else Itoa (n div 10) @ [digit (n mod 10)])"

declare Itoa.simps [simp del]

text \<open>
  Modelled from the spec: the Postgres placeholder rewriting is missing from the
  sources. Each \<open>?\<close> becomes \<open>$\<close> followed by its position, counted from \<open>pos\<close>;
  every other character is kept.
\<close>

fun pgPlaceHold :: "nat \<Rightarrow> string \<Rightarrow> string" where
  "pgPlaceHold pos [] = []"
| "pgPlaceHold pos (c # cs) =
     (if c = CHR ''?'' then ''$'' @ Itoa pos @ pgPlaceHold (Suc pos) cs
      else c # pgPlaceHold pos cs)"

text \<open>
  Modelled from the spec: \<open>GetPlaceHoldSQL\<close> of the two adapters, missing from the sources:
  MySQL returns the SQL unchanged, Postgres numbers the placeholders from 1.
\<close>

fun GetPlaceHoldSQL :: "DBSpecial \<Rightarrow> string \<Rightarrow> string" where
  "GetPlaceHoldSQL Mysql sql = sql"
| "GetPlaceHoldSQL Postgres sql = pgPlaceHold 1 sql"

text \<open>
  Modelled from the spec: \<open>GetInsertIgnoreTemplate\<close> of the two adapters, missing from the
  sources; the texts are those the test asserts.
\<close>

fun GetInsertIgnoreTemplate :: "DBSpecial \<Rightarrow> string \<Rightarrow> string \<Rightarrow> string" where
  "GetInsertIgnoreTemplate Mysql tableAndValues pgConstraint =
     ''insert ignore into '' @ tableAndValues"
| "GetInsertIgnoreTemplate Postgres tableAndValues pgConstraint =
     ''insert into '' @ tableAndValues @ '' on conflict ON CONSTRAINT '' @ pgConstraint
       @ '' do nothing''"

section \<open>Database helpers (dtmimp utilities)\<close>

text \<open>
  \<open>DBExec\<close>. The handle \<open>db\<close> is an interface: its \<open>Exec\<close> is the parameter \<open>exec\<close>,
  which gives the new state of the database and either an error or the pair that
  \<open>RowsAffected()\<close> of the result returns. \<open>special\<close> is what \<open>GetDBSpecial()\<close> returns.
  Logging is left out.
\<close>

definition DBExec ::
  "DBSpecial \<Rightarrow> ('db \<Rightarrow> string \<Rightarrow> 'a list \<Rightarrow> (error + (int \<times> error option)) \<times> 'db)
     \<Rightarrow> 'db \<Rightarrow> string \<Rightarrow> 'a list \<Rightarrow> (int \<times> error option) \<times> 'db" where
  "DBExec special exec db sql values =
     (if sql = [] then ((0, None), db)
      else
        let sql' = GetPlaceHoldSQL special sql;
            (r, db') = exec db sql' values
        in case r of
             Inr rows \<Rightarrow> (rows, db')
           | Inl rerr \<Rightarrow> ((0, Some rerr), db'))"

text \<open>A Go map read: a missing key gives the empty string.\<close>

definition map_get :: "(string \<rightharpoonup> string) \<Rightarrow> string \<Rightarrow> string" where
  "map_get m k = (case m k of None \<Rightarrow> [] | Some v \<Rightarrow> v)"

text \<open>\<open>strings.Replace(s, old, new, 1)\<close>: the first occurrence of \<open>old\<close> is replaced.\<close>

fun ReplaceFirst :: "string \<Rightarrow> string \<Rightarrow> string \<Rightarrow> string" where
  "ReplaceFirst [] old new = (if old = [] then new else [])"
| "ReplaceFirst (c # cs) old new =
     (if prefix old (c # cs) then new @ drop (length old) (c # cs)
      else c # ReplaceFirst cs old new)"

text \<open>\<open>is_docker\<close> stands for \<open>os.Getenv("IS_DOCKER") != ""\<close>.\<close>

definition MayReplaceLocalhost :: "bool \<Rightarrow> string \<Rightarrow> string" where
  "MayReplaceLocalhost is_docker host =
     (if is_docker then ReplaceFirst host ''localhost'' ''host.docker.internal'' else host)"

definition GetDsn :: "bool \<Rightarrow> (string \<rightharpoonup> string) \<Rightarrow> string result" where
  "GetDsn is_docker conf =
     (let host = MayReplaceLocalhost is_docker (map_get conf ''host'');
          driver = map_get conf ''driver'';
          dsn = map_get (map_of
            [(''mysql'',
                map_get conf ''user'' @ '':'' @ map_get conf ''password'' @ ''@tcp('' @ host
                  @ '':'' @ map_get conf ''port'' @ '')/'' @ map_get conf ''database''
                  @ ''?charset=utf8mb4&parseTime=true&loc=Local''),
             (''postgres'',
                ''host='' @ host @ '' user='' @ map_get conf ''user'' @ '' password=''
                  @ map_get conf ''password'' @ '' dbname='' @ [CHR 0x27]
                  @ map_get conf ''database'' @ [CHR 0x27] @ '' port='' @ map_get conf ''port''
                  @ '' sslmode=disable'')]) driver
      in then_do (PanicIf (dsn = []) (ErrorString (''unknow driver: '' @ driver)))
           (\<lambda>_. Inr dsn))"

section \<open>Barrier\<close>

text \<open>
  Modelled from the spec: the Barrier (\<open>barrier.Call\<close> and its data) is missing from the
  sources; only a handler that calls it is there. The model follows the component
  design of the Barrier and the data model.

  A BarrierRecord is keyed by gid, branch id, operation kind and sub-barrier id. The
  participant's database, seen inside one local transaction, holds the table of
  BarrierRecords, the markers "compensated without action", and the business data.
\<close>

datatype Op = Action | Compensation | Try | Confirm | Cancel

text \<open>
  Modelled from the spec: the BarrierRecord of the data model, missing from the sources;
  a row is its key.
\<close>

record BarrierRecord =
  gid :: string
  branch_id :: string
  op :: Op
  barrier_id :: nat

text \<open>
  Modelled from the spec: the participant's own database inside a local transaction,
  missing from the sources.
\<close>

record 'db LocalTx =
  barrier_table :: "BarrierRecord list"
  null_compensations :: "BarrierRecord list"
  busi :: 'db

text \<open>
  Modelled from the spec: the barrier object of one branch call, missing from the
  sources: the slot without its sub-barrier id, and the counter of nested calls.
\<close>

record BranchBarrier =
  Gid :: string
  BranchID :: string
  BranchOp :: Op
  BarrierID :: nat

text \<open>
  Modelled from the spec: the opposing kind of the null-compensation rule. A
  compensation (cancel) looks for the action (try) of its branch.
\<close>

fun origin_op :: "Op \<Rightarrow> Op option" where
  "origin_op Compensation = Some Action"
| "origin_op Cancel = Some Try"
| "origin_op k = None"

text \<open>
  Modelled from the spec: the opposing kind of the suspension rule. An action (try)
  looks for the compensation (cancel) of its branch.
\<close>

fun reverse_op :: "Op \<Rightarrow> Op option" where
  "reverse_op Action = Some Compensation"
| "reverse_op Try = Some Cancel"
| "reverse_op k = None"

text \<open>
  Modelled from the spec: whether a BarrierRecord of the given kind exists for this
  branch of this global transaction.
\<close>

definition has_record :: "'db LocalTx \<Rightarrow> string \<Rightarrow> string \<Rightarrow> Op \<Rightarrow> bool" where
  "has_record tx g b k =
     list_ex (\<lambda>r. gid r = g \<and> branch_id r = b \<and> op r = k) (barrier_table tx)"

text \<open>
  Modelled from the spec: sub-barrier ids increment per nested call inside one branch
  handler, so the call takes the next id.
\<close>

definition next_slot :: "BranchBarrier \<Rightarrow> BarrierRecord" where
  "next_slot bb =
     \<lparr>gid = Gid bb, branch_id = BranchID bb, op = BranchOp bb, barrier_id = BarrierID bb + 1\<rparr>"

text \<open>
  Modelled from the spec: invoking the business closure inside the transaction; its
  own error is propagated.
\<close>

definition run_busi ::
  "('db \<Rightarrow> error + 'db) \<Rightarrow> 'db LocalTx \<Rightarrow> error option \<times> 'db LocalTx" where
  "run_busi busiCall tx =
     (case busiCall (busi tx) of
        Inl e \<Rightarrow> (Some e, tx)
      | Inr d \<Rightarrow> (None, tx\<lparr>busi := d\<rparr>))"

text \<open>
  Modelled from the spec: \<open>Call\<close> works within the given transaction. It attempts to
  insert the BarrierRecord of its slot; on an insert conflict (duplicate) it returns
  success without invoking the closure. Otherwise it checks the opposing record: a
  compensation whose action record is absent inserts the marker and skips its body
  (null compensation); an action whose compensation record exists is skipped
  (suspension); else the closure is invoked and its error propagated. The result is the
  error, the state inside the transaction, and the barrier with its counter advanced.
\<close>

definition Call ::
  "BranchBarrier \<Rightarrow> 'db LocalTx \<Rightarrow> ('db \<Rightarrow> error + 'db)
     \<Rightarrow> (error option \<times> 'db LocalTx) \<times> BranchBarrier" where
  "Call bb tx busiCall =
     (let slot = next_slot bb;
          bb' = bb\<lparr>BarrierID := BarrierID bb + 1\<rparr>
      in if slot \<in> set (barrier_table tx) then ((None, tx), bb')
         else
           let tx1 = tx\<lparr>barrier_table := slot # barrier_table tx\<rparr>
           in case origin_op (op slot) of
                Some k \<Rightarrow>
                  if \<not> has_record tx1 (gid slot) (branch_id slot) k
                  then ((None, tx1\<lparr>null_compensations := slot # null_compensations tx1\<rparr>), bb')
                  else (run_busi busiCall tx1, bb')
              | None \<Rightarrow>
                  (case reverse_op (op slot) of
                     Some k \<Rightarrow>
                       if has_record tx1 (gid slot) (branch_id slot) k then ((None, tx1), bb')
                       else (run_busi busiCall tx1, bb')
                   | None \<Rightarrow> (run_busi busiCall tx1, bb')))"

text \<open>
  Modelled from the spec: the conditions under which the closure is invoked. The slot
  has no BarrierRecord yet, and no anomaly is detected: for a compensation (cancel)
  the action (try) record of the branch exists, for an action (try) no compensation
  (cancel) record of the branch exists.
\<close>

definition slot_free_no_anomaly :: "BranchBarrier \<Rightarrow> 'db LocalTx \<Rightarrow> bool" where
  "slot_free_no_anomaly bb db =
     (let slot = next_slot bb
      in slot \<notin> set (barrier_table db) \<and>
         (case origin_op (op slot) of
            Some k \<Rightarrow> has_record db (gid slot) (branch_id slot) k
          | None \<Rightarrow>
              (case reverse_op (op slot) of
                 Some k \<Rightarrow> \<not> has_record db (gid slot) (branch_id slot) k
               | None \<Rightarrow> True)))"





section \<open>The Saga branch handler of the example\<close>

text \<open>
  The business table \<open>dtm_busi.user_account\<close>: balance by user id. The declarations of
  \<open>TransReq\<close> and of the table are not in the sources, so the numeric type \<open>'n\<close> of
  \<open>Amount\<close> and of the balance is a parameter: the integers, or a machine integer
  with its wrap-around.
\<close>

type_synonym 'n accounts = "int \<rightharpoonup> 'n"

record 'n TransReq =
  Amount :: 'n

text \<open>
  \<open>update dtm_busi.user_account set balance = balance + ? where user_id = ?\<close>: the
  statement may fail in the database (\<open>fault\<close>); if no row has the user id, no row
  changes.
\<close>

definition Exec_update ::
  "error option \<Rightarrow> ('n :: plus) accounts \<Rightarrow> 'n \<Rightarrow> int \<Rightarrow> error + 'n accounts" where
  "Exec_update fault a amount user_id =
     (case fault of
        Some e \<Rightarrow> Inl e
      | None \<Rightarrow> Inr (case a user_id of None \<Rightarrow> a | Some b \<Rightarrow> a(user_id \<mapsto> b + amount)))"

text \<open>
  \<open>dbGet().DB.Begin()\<close>: the transaction starts from the state of the database. The
  database is taken to be reachable, so that a transaction is opened.
\<close>

definition Begin :: "'db LocalTx \<Rightarrow> 'db LocalTx" where
  "Begin db = db"

text \<open>
  \<open>sagaGormBarrierTransOut\<close>. The declarations of \<open>MapSuccess\<close>, \<open>reqFrom\<close> and
  \<open>MustBarrierFromGin\<close> are not in the sources; they are parameters, and the last two
  may panic. The result is the reply value, the error, and the state inside the
  transaction.
\<close>

definition sagaGormBarrierTransOut ::
  "'r \<Rightarrow> ('c \<Rightarrow> ('n :: ab_group_add) TransReq result) \<Rightarrow> ('c \<Rightarrow> BranchBarrier result)
     \<Rightarrow> error option \<Rightarrow> 'c \<Rightarrow> 'n accounts LocalTx
     \<Rightarrow> (('r \<times> error option) \<times> 'n accounts LocalTx) result" where
  "sagaGormBarrierTransOut MapSuccess reqFrom MustBarrierFromGin fault c db =
     then_do (reqFrom c) (\<lambda>req.
       then_do (MustBarrierFromGin c) (\<lambda>barrier.
         let tx = Begin db;
             r = fst (Call barrier tx (\<lambda>a. Exec_update fault a (- Amount req) 2))
         in Inr ((MapSuccess, fst r), snd r)))"

section \<open>Properties of the panic helpers\<close>

text \<open>
  Claim C9. The panic/error helpers form a round trip: for every non-nil error \<open>e\<close>,
  \<open>CatchP\<close> of a function that calls \<open>E2P(e)\<close> (after any prefix \<open>g\<close> that returns
  normally) returns exactly \<open>e\<close>, \<open>AsError\<close> being the identity on a value that is
  already an error; and \<open>CatchP\<close> of a function that returns without panicking
  returns nil.
\<close>

theorem CatchP_E2P_round_trip:
  "CatchP (\<lambda>_. E2P (Some e)) = Some e \<and>
   AsError (PanicError e) = e \<and>
   (g () = Inr x \<longrightarrow> CatchP (\<lambda>_. then_do (g ()) (\<lambda>_. E2P (Some e))) = Some e) \<and>
   (f () = Inr () \<longrightarrow> CatchP f = None)"
  by (simp add: CatchP_def then_do_def)

theorem CatchP_E2P_round_trip_witness:
  "CatchP (\<lambda>_. then_do (PanicIf False ErrOngoing) (\<lambda>_. E2P (Some ErrFailure))) = Some ErrFailure \<and>
   CatchP (\<lambda>_. E2P None) = None"
proof -
  have g: "(\<lambda>_. PanicIf False ErrOngoing) () = Inr ()"
    by (simp add: PanicIf_def)
  have f: "(\<lambda>_. E2P None) () = Inr ()"
    by simp
  from CatchP_E2P_round_trip
    [of ErrFailure "\<lambda>_. PanicIf False ErrOngoing" "()" "\<lambda>_. E2P None"] g f
  show ?thesis by blast
qed

section \<open>Properties of the status interpreter\<close>

lemma Contains_marker: "Contains (pre @ m @ post) m"
  by (simp add: Contains_def)

text \<open>
  Claim C1. A response received without a transport error and with a 2xx status is
  classified by its body: FAILURE (\<open>ErrFailure\<close>) when the body contains the failure
  marker, else ONGOING (\<open>ErrOngoing\<close>) when it contains the ongoing marker, else
  SUCCESS (the nil error). \<open>CheckResult\<close> agrees on a response, and does the same on
  the encoded text of a structured payload.
\<close>

theorem status_interpreter_2xx:
  assumes "200 \<le> StatusCode r" and "StatusCode r < 300"
  shows "CheckResponse (Some r) None =
           (if Contains (RespString r) ResultFailure then Some ErrFailure
            else if Contains (RespString r) ResultOngoing then Some ErrOngoing
            else None) \<and>
         CheckResult marshal (ResResponse (Some r)) None =
           Inr (if Contains (RespString r) ResultFailure then Some ErrFailure
                else if Contains (RespString r) ResultOngoing then Some ErrOngoing
                else None) \<and>
         (marshal v = Inr body \<longrightarrow>
            CheckResult marshal (ResValue v) None =
              Inr (if Contains body ResultFailure then Some ErrFailure
                   else if Contains body ResultOngoing then Some ErrOngoing
                   else None))"
  using assms
  by (simp add: CheckResponse_def IsError_def CheckResult_def MustMarshalString_def
      MustMarshal_def then_do_def)

theorem status_interpreter_2xx_witness:
  "CheckResponse (Some \<lparr>StatusCode = 200, RespString = ''dtm_result=ONGOING''\<rparr>) None
     = Some ErrOngoing \<and>
   CheckResult Inr (ResValue ''dtm_result=SUCCESS'') None = Inr None"
  using status_interpreter_2xx
    [of "\<lparr>StatusCode = 200, RespString = ''dtm_result=ONGOING''\<rparr>" Inr
      "''dtm_result=SUCCESS''" "''dtm_result=SUCCESS''"]
  by (simp add: Contains_def ResultFailure_def ResultOngoing_def sublist_Cons_right)

text \<open>
  Claim C2, as the code has it. When the transport error is not nil, \<open>CheckResponse\<close>
  and \<open>CheckResult\<close> return that very error, whatever the response is: the outcome is
  never the nil error, and it is not turned into the ongoing signal.
\<close>

theorem transport_error_passed_through:
  "CheckResponse resp (Some e) = Some e \<and> CheckResult marshal res (Some e) = Inr (Some e)"
  by (simp add: CheckResponse_def CheckResult_def)

text \<open>
  Claim C2 as stated fails: a transport error with no response is not classified as
  ONGOING; the interpreter hands back the transport error.
\<close>

theorem transport_error_not_ongoing:
  "CheckResponse None (Some (ErrorString ''i/o timeout'')) \<noteq> Some ErrOngoing \<and>
   CheckResult Inr (ResNil :: string Res) (Some (ErrorString ''i/o timeout''))
     \<noteq> Inr (Some ErrOngoing)"
  by (simp add: CheckResponse_def CheckResult_def)

text \<open>
  Claim C3, as the code has it. For a response received without a transport error whose
  status code is above 399, \<open>CheckResponse\<close> returns a new error whose message is the
  response body, without looking for markers; a response with any status code up to 399
  is classified by the markers in its body.
\<close>

theorem CheckResponse_by_status:
  "(399 < StatusCode r \<longrightarrow>
      CheckResponse (Some r) None = Some (ErrorString (RespString r))) \<and>
   (StatusCode r \<le> 399 \<longrightarrow>
      CheckResponse (Some r) None =
        (if Contains (RespString r) ResultFailure then Some ErrFailure
         else if Contains (RespString r) ResultOngoing then Some ErrOngoing
         else None))"
  by (simp add: CheckResponse_def IsError_def)

theorem CheckResponse_by_status_witness:
  "CheckResponse (Some \<lparr>StatusCode = 409, RespString = ''FAILURE''\<rparr>) None
     = Some (ErrorString ''FAILURE'') \<and>
   CheckResponse (Some \<lparr>StatusCode = 304, RespString = []\<rparr>) None = None"
  using CheckResponse_by_status [of "\<lparr>StatusCode = 409, RespString = ''FAILURE''\<rparr>"]
    CheckResponse_by_status [of "\<lparr>StatusCode = 304, RespString = []\<rparr>"]
  by (simp add: Contains_def ResultFailure_def ResultOngoing_def)

text \<open>
  Claim C3 as stated fails: a response with status 500 gives a generic error, which is
  not the failure signal \<open>ErrFailure\<close>, and a response with status 304 and an empty
  body gives the nil error.
\<close>

theorem non_2xx_not_failure:
  "CheckResponse (Some \<lparr>StatusCode = 500, RespString = ''internal server error''\<rparr>) None
     \<noteq> Some ErrFailure \<and>
   CheckResponse (Some \<lparr>StatusCode = 304, RespString = []\<rparr>) None \<noteq> Some ErrFailure"
  by (simp add: CheckResponse_def IsError_def Contains_def ResultFailure_def
      ResultOngoing_def)

text \<open>
  Claim C5. There is a response body whose status field says SUCCESS and whose payload
  data holds the failure-marker text, and it is classified as FAILURE: the marker is
  looked for anywhere in the full body. The same holds for any text around the marker.
\<close>

theorem marker_in_payload_is_failure:
  "CheckResponse
     (Some \<lparr>StatusCode = 200, RespString = ''dtm_result=SUCCESS&memo=RETRY AFTER FAILURE''\<rparr>)
     None = Some ErrFailure \<and>
   CheckResult Inr (ResValue ''dtm_result=SUCCESS&memo=RETRY AFTER FAILURE'') None
     = Inr (Some ErrFailure) \<and>
   CheckResponse (Some \<lparr>StatusCode = 200, RespString = pre @ ResultFailure @ post\<rparr>) None
     = Some ErrFailure"
proof -
  have "Contains (''dtm_result=SUCCESS&memo=RETRY AFTER '' @ ResultFailure @ []) ResultFailure"
    by (rule Contains_marker)
  then have c: "Contains ''dtm_result=SUCCESS&memo=RETRY AFTER FAILURE'' ResultFailure"
    by (simp add: ResultFailure_def)
  have "CheckResponse
     (Some \<lparr>StatusCode = 200, RespString = ''dtm_result=SUCCESS&memo=RETRY AFTER FAILURE''\<rparr>)
     None = Some ErrFailure"
    using c by (simp add: CheckResponse_def IsError_def)
  moreover have
    "CheckResult Inr (ResValue ''dtm_result=SUCCESS&memo=RETRY AFTER FAILURE'') None
       = Inr (Some ErrFailure)"
    using c
    by (simp add: CheckResult_def MustMarshalString_def MustMarshal_def then_do_def)
  moreover have
    "CheckResponse (Some \<lparr>StatusCode = 200, RespString = pre @ ResultFailure @ post\<rparr>) None
       = Some ErrFailure"
    using Contains_marker [of pre ResultFailure post]
    by (simp add: CheckResponse_def IsError_def)
  ultimately show ?thesis by blast
qed

section \<open>Properties of the database helpers\<close>

text \<open>
  Claim C10. For every database handle and every argument list, \<open>DBExec\<close> called with
  the empty SQL string returns affected = 0 and a nil error, and the database is as it
  was: \<open>Exec\<close> is not called, whatever it would do.
\<close>

theorem DBExec_empty_sql:
  "DBExec special exec db [] values = ((0, None), db)"
  by (simp add: DBExec_def)

section \<open>Properties of the configuration and the dialect adapter\<close>

text \<open>
  Claim C6. For every configuration map whose driver is neither \<open>mysql\<close> nor
  \<open>postgres\<close>, \<open>GetDsn\<close> panics with an error carrying the unknown-driver diagnostic
  and returns no DSN; \<open>SetCurrentDBType\<close> with a name that is not a recognised dialect
  raises an error (seen through \<open>CatchP\<close>, as the test does); for the two recognised
  drivers \<open>GetDsn\<close> returns a non-empty DSN.
\<close>

theorem unknown_driver_panics:
  "(map_get conf ''driver'' \<noteq> ''mysql'' \<and> map_get conf ''driver'' \<noteq> ''postgres'' \<longrightarrow>
      GetDsn is_docker conf =
        Inl (PanicError (ErrorString (''unknow driver: '' @ map_get conf ''driver'')))) \<and>
   (dbType \<noteq> DBTypeMysql \<and> dbType \<noteq> DBTypePostgres \<longrightarrow>
      (\<exists>e. CatchP (\<lambda>_. then_do (SetCurrentDBType dbType cur) (\<lambda>_. Inr ())) = Some e)) \<and>
   (map_get conf ''driver'' = ''mysql'' \<or> map_get conf ''driver'' = ''postgres'' \<longrightarrow>
      (\<exists>dsn. GetDsn is_docker conf = Inr dsn \<and> dsn \<noteq> []))"
proof -
  have "GetDsn is_docker conf =
      Inl (PanicError (ErrorString (''unknow driver: '' @ map_get conf ''driver'')))"
    if "map_get conf ''driver'' \<noteq> ''mysql''" and "map_get conf ''driver'' \<noteq> ''postgres''"
    using that by (simp add: GetDsn_def Let_def map_get_def then_do_def PanicIf_def)
  moreover have
    "\<exists>e. CatchP (\<lambda>_. then_do (SetCurrentDBType dbType cur) (\<lambda>_. Inr ())) = Some e"
    if "dbType \<noteq> DBTypeMysql" and "dbType \<noteq> DBTypePostgres"
    using that
    by (simp add: SetCurrentDBType_def dbSpecials_def then_do_def PanicIf_def CatchP_def)
  moreover have "\<exists>dsn. GetDsn is_docker conf = Inr dsn \<and> dsn \<noteq> []"
    if "map_get conf ''driver'' = ''mysql'' \<or> map_get conf ''driver'' = ''postgres''"
    using that by (auto simp add: GetDsn_def Let_def map_get_def then_do_def PanicIf_def)
  ultimately show ?thesis by blast
qed

theorem unknown_driver_panics_witness:
  "GetDsn False (map_of [(''driver'', ''sqlite'')])
     = Inl (PanicError (ErrorString ''unknow driver: sqlite'')) \<and>
   (\<exists>e. CatchP (\<lambda>_. then_do (SetCurrentDBType ''no-driver'' ''mysql'') (\<lambda>_. Inr ())) = Some e) \<and>
   (\<exists>dsn. GetDsn True (map_of [(''driver'', ''postgres''), (''host'', ''localhost'')])
      = Inr dsn \<and> dsn \<noteq> [])"
  using unknown_driver_panics
      [of "map_of [(''driver'', ''sqlite'')]" False "''no-driver''" "''mysql''"]
    unknown_driver_panics
      [of "map_of [(''driver'', ''postgres''), (''host'', ''localhost'')]" True
        "''no-driver''" "''mysql''"]
  by (simp add: map_get_def DBTypeMysql_def DBTypePostgres_def)

lemma digit_cases: "d < 10 \<Longrightarrow> d \<in> {0, 1, 2, 3, 4, 5, 6, 7, 8, 9 :: nat}"
  by auto

lemma of_char_digit: "d < 10 \<Longrightarrow> of_char (digit d) = (48 + d :: nat)"
  using digit_cases [of d] by (auto simp add: digit_def)

lemma digit_in_digits: "d < 10 \<Longrightarrow> digit d \<in> set ''0123456789''"
  using digit_cases [of d] by (auto simp add: digit_def)

lemma digit_zero: "d < 10 \<Longrightarrow> (digit d = CHR ''0'') = (d = 0)"
  using digit_cases [of d] by (auto simp add: digit_def)

lemma Itoa_not_Nil: "Itoa n \<noteq> []"
  by (subst Itoa.simps) simp

lemma Itoa_digits: "set (Itoa n) \<subseteq> set ''0123456789''"
proof (induction n rule: Itoa.induct)
  case (1 n)
  show ?case
  proof (cases "n < 10")
    case True
    then show ?thesis
      using digit_in_digits [of n] by (subst Itoa.simps) simp
  next
    case False
    with 1 have "set (Itoa (n div 10)) \<subseteq> set ''0123456789''" by simp
    moreover have "digit (n mod 10) \<in> set ''0123456789''"
      by (rule digit_in_digits) simp
    ultimately show ?thesis
      using False by (subst Itoa.simps) simp
  qed
qed

lemma Itoa_decode: "foldl (\<lambda>a d. 10 * a + (of_char d - 48)) 0 (Itoa n) = n"
proof (induction n rule: Itoa.induct)
  case (1 n)
  show ?case
  proof (cases "n < 10")
    case True
    then show ?thesis
      by (subst Itoa.simps) (simp add: of_char_digit)
  next
    case False
    with 1 have "foldl (\<lambda>a d. 10 * a + (of_char d - 48)) 0 (Itoa (n div 10)) = n div 10"
      by simp
    then show ?thesis
      using False by (subst Itoa.simps) (simp add: of_char_digit)
  qed
qed

lemma Itoa_leading: "(hd (Itoa n) = CHR ''0'') = (n = 0)"
proof (induction n rule: Itoa.induct)
  case (1 n)
  show ?case
  proof (cases "n < 10")
    case True
    then show ?thesis
      by (subst Itoa.simps) (simp add: digit_zero)
  next
    case False
    with 1 have "(hd (Itoa (n div 10)) = CHR ''0'') = (n div 10 = 0)"
      by simp
    moreover from False have "n div 10 \<noteq> 0" by simp
    ultimately show ?thesis
      using False by (subst Itoa.simps) (simp add: Itoa_not_Nil)
  qed
qed

lemma pgPlaceHold_append:
  "pgPlaceHold k (s @ t) = pgPlaceHold k s @ pgPlaceHold (k + count_list s (CHR ''?'')) t"
  by (induction s arbitrary: k) auto

lemma pgPlaceHold_unmarked: "CHR ''?'' \<notin> set s \<Longrightarrow> pgPlaceHold k s = s"
  by (induction s) auto

lemma pgPlaceHold_closed:
  "pgPlaceHold k s =
     concat (map (\<lambda>i. if s ! i = CHR ''?''
                        then ''$'' @ Itoa (k + count_list (take i s) (CHR ''?''))
                        else [s ! i]) [0..<length s])"
proof (induction s rule: rev_induct)
  case Nil
  show ?case by simp
next
  case (snoc c s)
  define F where "F t = (\<lambda>i. if t ! i = CHR ''?''
                          then ''$'' @ Itoa (k + count_list (take i t) (CHR ''?''))
                          else [t ! i])" for t :: string
  have ih: "pgPlaceHold k s = concat (map (F s) [0..<length s])"
    using snoc by (simp add: F_def)
  have m: "map (F (s @ [c])) [0..<length s] = map (F s) [0..<length s]"
    by (rule map_cong) (auto simp add: F_def nth_append)
  have l: "F (s @ [c]) (length s) = pgPlaceHold (k + count_list s (CHR ''?'')) [c]"
    by (simp add: F_def)
  have "pgPlaceHold k (s @ [c]) = concat (map (F s) [0..<length s]) @ F (s @ [c]) (length s)"
    by (simp only: pgPlaceHold_append ih l)
  also have "\<dots> = concat (map (F (s @ [c])) [0..<length (s @ [c])])"
    by (simp add: m)
  finally show ?case
    by (simp only: F_def)
qed

lemma pgPlaceHold_no_mark: "CHR ''?'' \<notin> set (pgPlaceHold k s)"
proof (induction s arbitrary: k)
  case Nil
  show ?case by simp
next
  case (Cons c s)
  have "CHR ''?'' \<notin> set (Itoa k)"
    using Itoa_digits [of k] by auto
  with Cons show ?case by simp
qed

text \<open>
  Claim C7. The dialect adapter supports MySQL and Postgres with different
  translations. MySQL: placeholder SQL is returned unchanged and insert-ignore renders
  as \<open>insert ignore into ...\<close>. Postgres: insert-ignore renders as
  \<open>insert into ... on conflict ON CONSTRAINT <name> do nothing\<close>, and each \<open>?\<close> is
  rewritten in order: the result is the SQL text in which every character other than
  \<open>?\<close> is kept and the \<open>?\<close> that has \<open>n\<close> earlier ones before it is replaced by \<open>$\<close>
  and the decimal numeral of \<open>n + 1\<close> (a non-empty digit string without leading zero
  whose value is the number), so that no \<open>?\<close> remains; with one or two placeholders
  between texts without \<open>?\<close> these are \<open>$1\<close> and \<open>$2\<close>. The two dialects differ on every
  insert-ignore and on every SQL text that has a placeholder, and they give the texts
  that \<open>TestDBSpecial\<close> asserts.
\<close>

theorem dialect_translations:
  "GetPlaceHoldSQL Mysql sql = sql \<and>
   GetInsertIgnoreTemplate Mysql t c = ''insert ignore into '' @ t \<and>
   GetInsertIgnoreTemplate Postgres t c =
     ''insert into '' @ t @ '' on conflict ON CONSTRAINT '' @ c @ '' do nothing'' \<and>
   GetInsertIgnoreTemplate Mysql t c \<noteq> GetInsertIgnoreTemplate Postgres t c \<and>
   GetPlaceHoldSQL Postgres sql =
     concat (map (\<lambda>i. if sql ! i = CHR ''?''
                        then ''$'' @ Itoa (Suc (count_list (take i sql) (CHR ''?'')))
                        else [sql ! i]) [0..<length sql]) \<and>
   (Itoa n \<noteq> [] \<and> set (Itoa n) \<subseteq> set ''0123456789'' \<and>
    foldl (\<lambda>a d. 10 * a + (of_char d - 48)) 0 (Itoa n) = n \<and>
    (hd (Itoa n) = CHR ''0'') = (n = 0)) \<and>
   CHR ''?'' \<notin> set (GetPlaceHoldSQL Postgres sql) \<and>
   (CHR ''?'' \<in> set sql \<longrightarrow> GetPlaceHoldSQL Postgres sql \<noteq> GetPlaceHoldSQL Mysql sql) \<and>
   (CHR ''?'' \<notin> set s0 \<and> CHR ''?'' \<notin> set s1 \<and> CHR ''?'' \<notin> set s2 \<longrightarrow>
      GetPlaceHoldSQL Postgres s0 = s0 \<and>
      GetPlaceHoldSQL Postgres (s0 @ ''?'' @ s1) = s0 @ ''$1'' @ s1 \<and>
      GetPlaceHoldSQL Postgres (s0 @ ''?'' @ s1 @ ''?'' @ s2) = s0 @ ''$1'' @ s1 @ ''$2'' @ s2) \<and>
   (GetPlaceHoldSQL Mysql ''? ?'' = ''? ?'' \<and>
    GetInsertIgnoreTemplate Mysql ''a(f) values(?)'' ''c'' = ''insert ignore into a(f) values(?)'' \<and>
    GetPlaceHoldSQL Postgres ''? ?'' = ''$1 $2'' \<and>
    GetInsertIgnoreTemplate Postgres ''a(f) values(?)'' ''c'' =
      ''insert into a(f) values(?) on conflict ON CONSTRAINT c do nothing'')"
proof -
  have closed: "GetPlaceHoldSQL Postgres sql =
     concat (map (\<lambda>i. if sql ! i = CHR ''?''
                        then ''$'' @ Itoa (Suc (count_list (take i sql) (CHR ''?'')))
                        else [sql ! i]) [0..<length sql])"
    by (simp only: GetPlaceHoldSQL.simps pgPlaceHold_closed [of 1 sql] plus_1_eq_Suc)
  have numeral: "Itoa n \<noteq> [] \<and> set (Itoa n) \<subseteq> set ''0123456789'' \<and>
      foldl (\<lambda>a d. 10 * a + (of_char d - 48)) 0 (Itoa n) = n \<and>
      (hd (Itoa n) = CHR ''0'') = (n = 0)"
    using Itoa_not_Nil [of n] Itoa_digits [of n] Itoa_decode [of n] Itoa_leading [of n]
    by blast
  have none: "CHR ''?'' \<notin> set (GetPlaceHoldSQL Postgres sql)"
    by (simp add: pgPlaceHold_no_mark)
  have differ: "GetPlaceHoldSQL Postgres sql \<noteq> GetPlaceHoldSQL Mysql sql"
    if "CHR ''?'' \<in> set sql"
    using that none by auto
  have one: "Itoa (Suc 0) = ''1''" and two: "Itoa (Suc (Suc 0)) = ''2''"
    by (simp_all add: Itoa.simps digit_def)
  have segments: "GetPlaceHoldSQL Postgres s0 = s0 \<and>
      GetPlaceHoldSQL Postgres (s0 @ ''?'' @ s1) = s0 @ ''$1'' @ s1 \<and>
      GetPlaceHoldSQL Postgres (s0 @ ''?'' @ s1 @ ''?'' @ s2) = s0 @ ''$1'' @ s1 @ ''$2'' @ s2"
    if "CHR ''?'' \<notin> set s0 \<and> CHR ''?'' \<notin> set s1 \<and> CHR ''?'' \<notin> set s2"
  proof -
    from that have c: "count_list s0 (CHR ''?'') = 0" "count_list s1 (CHR ''?'') = 0"
      by simp_all
    from that have u: "pgPlaceHold k s0 = s0" "pgPlaceHold k s1 = s1" "pgPlaceHold k s2 = s2"
      for k
      by (simp_all add: pgPlaceHold_unmarked)
    show ?thesis
      by (simp add: pgPlaceHold_append c u one two)
  qed
  have test: "GetPlaceHoldSQL Mysql ''? ?'' = ''? ?'' \<and>
    GetInsertIgnoreTemplate Mysql ''a(f) values(?)'' ''c'' = ''insert ignore into a(f) values(?)'' \<and>
    GetPlaceHoldSQL Postgres ''? ?'' = ''$1 $2'' \<and>
    GetInsertIgnoreTemplate Postgres ''a(f) values(?)'' ''c'' =
      ''insert into a(f) values(?) on conflict ON CONSTRAINT c do nothing''"
    by (simp add: one two)
  have templates: "GetPlaceHoldSQL Mysql sql = sql \<and>
   GetInsertIgnoreTemplate Mysql t c = ''insert ignore into '' @ t \<and>
   GetInsertIgnoreTemplate Postgres t c =
     ''insert into '' @ t @ '' on conflict ON CONSTRAINT '' @ c @ '' do nothing'' \<and>
   GetInsertIgnoreTemplate Mysql t c \<noteq> GetInsertIgnoreTemplate Postgres t c"
    by simp
  from templates closed numeral none differ segments test show ?thesis
    by blast
qed

theorem dialect_translations_witness:
  "GetPlaceHoldSQL Postgres
     ''update dtm_busi.user_account set balance = balance + ? where user_id = ?''
     = ''update dtm_busi.user_account set balance = balance + $1 where user_id = $2'' \<and>
   GetPlaceHoldSQL Postgres ''select 1'' = ''select 1'' \<and>
   GetPlaceHoldSQL Postgres ''? ?'' \<noteq> GetPlaceHoldSQL Mysql ''? ?''"
proof -
  note a = dialect_translations
    [of "''? ?''" "''a(f) values(?)''" "''c''" 1
      "''update dtm_busi.user_account set balance = balance + ''" "'' where user_id = ''" "[]"]
  note b = dialect_translations
    [of "''? ?''" "''a(f) values(?)''" "''c''" 1 "''select 1''" "[]" "[]"]
  have h: "CHR ''?'' \<notin> set ''update dtm_busi.user_account set balance = balance + '' \<and>
      CHR ''?'' \<notin> set '' where user_id = '' \<and> CHR ''?'' \<notin> set ''''"
    by simp
  with a have "GetPlaceHoldSQL Postgres
      (''update dtm_busi.user_account set balance = balance + '' @ ''?''
         @ '' where user_id = '' @ ''?'' @ [])
      = ''update dtm_busi.user_account set balance = balance + '' @ ''$1''
         @ '' where user_id = '' @ ''$2'' @ []"
    by blast
  then have u: "GetPlaceHoldSQL Postgres
     ''update dtm_busi.user_account set balance = balance + ? where user_id = ?''
     = ''update dtm_busi.user_account set balance = balance + $1 where user_id = $2''"
    by simp
  have "CHR ''?'' \<notin> set ''select 1'' \<and> CHR ''?'' \<notin> set '''' \<and> CHR ''?'' \<notin> set ''''"
    by simp
  with b have s: "GetPlaceHoldSQL Postgres ''select 1'' = ''select 1''"
    by blast
  have "CHR ''?'' \<in> set ''? ?''"
    by simp
  with a have d: "GetPlaceHoldSQL Postgres ''? ?'' \<noteq> GetPlaceHoldSQL Mysql ''? ?''"
    by blast
  from u s d show ?thesis by blast
qed

section \<open>Properties of the Barrier\<close>





lemma has_record_insert:
  "op slot \<noteq> k \<Longrightarrow>
   has_record (tx\<lparr>barrier_table := slot # barrier_table tx\<rparr>) g b k = has_record tx g b k"
  by (simp add: has_record_def)

lemma origin_op_other: "origin_op k = Some k' \<Longrightarrow> k \<noteq> k'"
  by (cases k) auto

lemma reverse_op_other: "reverse_op k = Some k' \<Longrightarrow> k \<noteq> k'"
  by (cases k) auto





section \<open>Properties of the Saga branch handler\<close>

text \<open>
  Claim C8. For every request, \<open>sagaGormBarrierTransOut\<close> replies with the success
  marker, and it changes the accounts only inside the Barrier's guarded call within the
  local transaction it opened: whenever the accounts change, the guarded call returned
  no error, the BarrierRecord of the slot was inserted in the same transaction, and the
  change is that the balance of account 2 has \<open>- Amount\<close> added to it. When the slot is
  free, no anomaly is detected and the statement does not fail, the balance of
  account 2 (if the row exists) is debited by exactly \<open>Amount\<close>. The request and the
  barrier are those that \<open>reqFrom\<close> and \<open>MustBarrierFromGin\<close> return.
\<close>

theorem sagaGormBarrierTransOut_debits:
  assumes "reqFrom c = Inr req" and "MustBarrierFromGin c = Inr bb"
  shows "\<exists>err tx'.
     sagaGormBarrierTransOut MapSuccess reqFrom MustBarrierFromGin fault c db
       = Inr ((MapSuccess, err), tx') \<and>
     (busi tx' \<noteq> busi db \<longrightarrow>
        err = None \<and> next_slot bb \<notin> set (barrier_table db) \<and>
        next_slot bb \<in> set (barrier_table tx') \<and>
        (\<exists>bal. busi db 2 = Some bal \<and>
           busi tx' = (busi db)(2 \<mapsto> bal + (- Amount req)))) \<and>
     (slot_free_no_anomaly bb db \<and> fault = None \<longrightarrow>
        err = None \<and>
        busi tx' = (case busi db 2 of
                      None \<Rightarrow> busi db
                    | Some bal \<Rightarrow> (busi db)(2 \<mapsto> bal - Amount req)))"
  using assms
  by (auto simp add: sagaGormBarrierTransOut_def then_do_def Begin_def Call_def Let_def
      run_busi_def Exec_update_def slot_free_no_anomaly_def has_record_insert
      origin_op_other reverse_op_other
      split: option.splits sum.splits)

theorem sagaGormBarrierTransOut_debits_witness:
  "\<exists>err tx'.
     sagaGormBarrierTransOut ''SUCCESS'' (\<lambda>_. Inr \<lparr>Amount = 30 :: int\<rparr>)
       (\<lambda>_. Inr \<lparr>Gid = ''g1'', BranchID = ''01'', BranchOp = Action, BarrierID = 0\<rparr>)
       None (0 :: nat)
       \<lparr>barrier_table = [], null_compensations = [], busi = [2 \<mapsto> 100]\<rparr>
       = Inr ((''SUCCESS'', err), tx') \<and>
     err = None \<and> busi tx' 2 = Some 70 \<and>
     \<lparr>gid = ''g1'', branch_id = ''01'', op = Action, barrier_id = 1\<rparr> \<in> set (barrier_table tx')"
proof -
  let ?bb = "\<lparr>Gid = ''g1'', BranchID = ''01'', BranchOp = Action, BarrierID = 0\<rparr>"
  let ?db = "\<lparr>barrier_table = [], null_compensations = [], busi = [(2::int) \<mapsto> (100::int)]\<rparr>"
  have free: "slot_free_no_anomaly ?bb ?db"
    by (simp add: slot_free_no_anomaly_def next_slot_def has_record_def)
  note t = sagaGormBarrierTransOut_debits
    [where MustBarrierFromGin = "\<lambda>_. Inr ?bb" and c = "0 :: nat" and bb = ?bb
      and MapSuccess = "''SUCCESS''" and reqFrom = "\<lambda>_. Inr \<lparr>Amount = 30 :: int\<rparr>"
      and req = "\<lparr>Amount = 30 :: int\<rparr>" and fault = None and db = ?db, OF refl refl]
  from t obtain err tx' where
    r: "sagaGormBarrierTransOut ''SUCCESS'' (\<lambda>_. Inr \<lparr>Amount = 30 :: int\<rparr>) (\<lambda>_. Inr ?bb) None
          (0 :: nat) ?db
          = Inr ((''SUCCESS'', err), tx')"
    and d: "busi tx' \<noteq> busi ?db \<longrightarrow> next_slot ?bb \<in> set (barrier_table tx')"
    and e: "slot_free_no_anomaly ?bb ?db \<and> (None :: error option) = None \<longrightarrow>
        err = None \<and>
        busi tx' = (case busi ?db 2 of
                      None \<Rightarrow> busi ?db
                    | Some bal \<Rightarrow> (busi ?db)(2 \<mapsto> bal - Amount \<lparr>Amount = 30 :: int\<rparr>))"
    by blast
  from e free have n: "err = None" and b: "busi tx' = [2 \<mapsto> 70]"
    by simp_all
  from b have v: "busi tx' 2 = Some 70"
    by simp
  then have "busi tx' 2 \<noteq> busi ?db 2"
    by simp
  then have "busi tx' \<noteq> busi ?db"
    by metis
  with d have "next_slot ?bb \<in> set (barrier_table tx')"
    by blast
  then have "\<lparr>gid = ''g1'', branch_id = ''01'', op = Action, barrier_id = 1\<rparr>
      \<in> set (barrier_table tx')"
    by (simp add: next_slot_def)
  with r n v show ?thesis by blast
qed

end
